theory Spec2Isabelle
  imports Main "HOL-Library.Word" "HOL-Library.Sublist"
begin

unbundle bit_operations_syntax

section \<open>The platform digest: SHA-256\<close>

text \<open>
  Both \<^verbatim>\<open>PainterRoom.hash\<close> (server) and \<^verbatim>\<open>SnapshotSync.hashBlob\<close> (client) call
  \<^verbatim>\<open>crypto.subtle.digest('SHA-256', data)\<close>. That routine belongs to the Web Crypto
  platform, not to the repository; the algorithm it names is SHA-256 of FIPS 180-4, which
  is written out here on 32-bit words so that tags can be computed. The lemma
  \<open>sha256_abc\<close> below checks the definition against the standard's test vector.
\<close>

type_synonym byte = "8 word"
type_synonym u32 = "32 word"

definition sha256_K :: "u32 list" where
  "sha256_K =
   [0x428a2f98, 0x71374491, 0xb5c0fbcf, 0xe9b5dba5, 0x3956c25b, 0x59f111f1, 0x923f82a4, 0xab1c5ed5] @
   [0xd807aa98, 0x12835b01, 0x243185be, 0x550c7dc3, 0x72be5d74, 0x80deb1fe, 0x9bdc06a7, 0xc19bf174] @
   [0xe49b69c1, 0xefbe4786, 0x0fc19dc6, 0x240ca1cc, 0x2de92c6f, 0x4a7484aa, 0x5cb0a9dc, 0x76f988da] @
   [0x983e5152, 0xa831c66d, 0xb00327c8, 0xbf597fc7, 0xc6e00bf3, 0xd5a79147, 0x06ca6351, 0x14292967] @
   [0x27b70a85, 0x2e1b2138, 0x4d2c6dfc, 0x53380d13, 0x650a7354, 0x766a0abb, 0x81c2c92e, 0x92722c85] @
   [0xa2bfe8a1, 0xa81a664b, 0xc24b8b70, 0xc76c51a3, 0xd192e819, 0xd6990624, 0xf40e3585, 0x106aa070] @
   [0x19a4c116, 0x1e376c08, 0x2748774c, 0x34b0bcb5, 0x391c0cb3, 0x4ed8aa4a, 0x5b9cca4f, 0x682e6ff3] @
   [0x748f82ee, 0x78a5636f, 0x84c87814, 0x8cc70208, 0x90befffa, 0xa4506ceb, 0xbef9a3f7, 0xc67178f2]"

definition sha256_H0 :: "u32 list" where
  "sha256_H0 =
   [0x6a09e667, 0xbb67ae85, 0x3c6ef372, 0xa54ff53a] @
   [0x510e527f, 0x9b05688c, 0x1f83d9ab, 0x5be0cd19]"

text \<open>The \<open>n\<close> low bytes of a word, most significant first.\<close>

definition be_bytes :: "nat \<Rightarrow> 'a::len word \<Rightarrow> byte list" where
  "be_bytes n v = map (\<lambda>i. ucast (drop_bit (8 * (n - 1 - i)) v)) [0..<n]"

definition be_word :: "byte list \<Rightarrow> u32" where
  "be_word bs = foldl (\<lambda>acc b. push_bit 8 acc + ucast b) 0 bs"

text \<open>Padding: a 1 bit, zeros up to 56 mod 64 bytes, then the bit length in 64 bits.\<close>

definition sha256_pad :: "byte list \<Rightarrow> byte list" where
  "sha256_pad m =
     m @ [0x80] @ replicate ((64 - (length m + 9) mod 64) mod 64) 0
       @ be_bytes 8 (of_nat (8 * length m) :: 64 word)"

fun chunks :: "nat \<Rightarrow> nat \<Rightarrow> 'a list \<Rightarrow> 'a list list" where
  "chunks 0 k xs = []"
| "chunks (Suc n) k xs = take k xs # chunks n k (drop k xs)"

text \<open>The message schedule: \<open>n\<close> further words appended to the 16 of the block.\<close>

fun sha256_schedule :: "nat \<Rightarrow> u32 list \<Rightarrow> u32 list" where
  "sha256_schedule 0 w = w"
| "sha256_schedule (Suc n) w =
     (let t = length w;
          w15 = w ! (t - 15);
          w2 = w ! (t - 2);
          s0 = word_rotr 7 w15 XOR word_rotr 18 w15 XOR drop_bit 3 w15;
          s1 = word_rotr 17 w2 XOR word_rotr 19 w2 XOR drop_bit 10 w2
      in sha256_schedule n (w @ [w ! (t - 16) + s0 + w ! (t - 7) + s1]))"

fun sha256_round :: "u32 list \<Rightarrow> u32 \<times> u32 \<Rightarrow> u32 list" where
  "sha256_round [a, b, c, d, e, f, g, h] (k, w) =
     (let S1 = word_rotr 6 e XOR word_rotr 11 e XOR word_rotr 25 e;
          ch = (e AND f) XOR (NOT e AND g);
          t1 = h + S1 + ch + k + w;
          S0 = word_rotr 2 a XOR word_rotr 13 a XOR word_rotr 22 a;
          maj = (a AND b) XOR (a AND c) XOR (b AND c);
          t2 = S0 + maj
      in [t1 + t2, a, b, c, d + t1, e, f, g])"
| "sha256_round v _ = v"

definition sha256_block :: "u32 list \<Rightarrow> byte list \<Rightarrow> u32 list" where
  "sha256_block hs blk =
     (let w = sha256_schedule 48 (map be_word (chunks 16 4 blk))
      in map2 (+) hs (foldl sha256_round hs (zip sha256_K w)))"

definition sha256 :: "byte list \<Rightarrow> byte list" where
  "sha256 m =
     (let p = sha256_pad m
      in concat (map (be_bytes 4)
           (foldl sha256_block sha256_H0 (chunks (length p div 64) 64 p))))"

section \<open>Version tags: \<^verbatim>\<open>PainterRoom.hash\<close> and \<^verbatim>\<open>SnapshotSync.hashBlob\<close>\<close>

text \<open>
  \<^verbatim>\<open>Array.from(bytes).map((b) => b.toString(16).padStart(2, '0')).join('')\<close>:
  \<open>toString16\<close> is \<^verbatim>\<open>Number.prototype.toString(16)\<close> on a non-negative integer
  (lowercase digits, no leading zero), \<open>padStart\<close> is \<^verbatim>\<open>String.prototype.padStart\<close>
  with a one-character filler.
\<close>

definition hexDigit :: "nat \<Rightarrow> char" where
  "hexDigit n = ''0123456789abcdef'' ! n"

fun toString16 :: "nat \<Rightarrow> string" where
  "toString16 n =
     (if n < 16 then [hexDigit n] else toString16 (n div 16) @ [hexDigit (n mod 16)])"

definition padStart :: "nat \<Rightarrow> char \<Rightarrow> string \<Rightarrow> string" where
  "padStart n c s = replicate (n - length s) c @ s"

text \<open>Server, \<^verbatim>\<open>PainterRoom.hash(data)\<close>.\<close>

definition hash :: "byte list \<Rightarrow> string" where
  "hash data =
     (let d = sha256 data;
          bytes = d
      in concat (map (\<lambda>b. padStart 2 CHR ''0'' (toString16 (unat b))) bytes))"

text \<open>
  Client, \<^verbatim>\<open>SnapshotSync.hashBlob(blob)\<close>; a \<^verbatim>\<open>Blob\<close> is modelled by the bytes
  that \<^verbatim>\<open>blob.arrayBuffer()\<close> yields.
\<close>

definition hashBlob :: "byte list \<Rightarrow> string" where
  "hashBlob blob =
     (let buf = blob;
          d = sha256 buf
      in concat (map (\<lambda>b. padStart 2 CHR ''0'' (toString16 (unat b))) d))"

text \<open>
  What the specification calls the tag: the lowercase hexadecimal rendering of a digest,
  two digits per byte. This definition follows the specification's words, for comparison
  with the two functions above.
\<close>

definition lowercase_hex :: "byte list \<Rightarrow> string" where
  "lowercase_hex bs = concat (map (\<lambda>b. [hexDigit (unat b div 16), hexDigit (unat b mod 16)]) bs)"

section \<open>The server store: \<^verbatim>\<open>PainterRoom\<close>\<close>

text \<open>\<^verbatim>\<open>type Eye = 'left' | 'right'\<close>, the keys of the \<^verbatim>\<open>eyes\<close> record.\<close>

datatype eye = Left | Right

text \<open>\<^verbatim>\<open>interface EyeState { bytes: Uint8Array | null; etag: string | null; updatedAt: number; }\<close>\<close>

record EyeState =
  bytes :: "byte list option"
  etag :: "string option"
  updatedAt :: nat

text \<open>
  The object's fields: \<open>eyes\<close> is the in-memory record, \<open>storage\<close> is what
  \<^verbatim>\<open>this.state.storage\<close> holds under the key \<^verbatim>\<open>'eyes'\<close> (\<open>None\<close> while nothing
  was ever put there). Writes to the storage are taken to succeed.
\<close>

record PainterRoom =
  eyes :: "eye \<Rightarrow> EyeState"
  storage :: "(eye \<Rightarrow> EyeState) option"

text \<open>
  The part of a \<^verbatim>\<open>Request\<close> that the worker and the room read: the method, the path,
  the query parameters \<^verbatim>\<open>room\<close> and \<^verbatim>\<open>eye\<close> (\<open>None\<close> when
  \<^verbatim>\<open>searchParams.get\<close> returns \<^verbatim>\<open>null\<close>), the \<^verbatim>\<open>If-None-Match\<close> header and the body.
\<close>

record Request =
  reqMethod :: string
  pathname :: string
  roomParam :: "string option"
  eyeParam :: "string option"
  ifNoneMatch :: "string option"
  reqBody :: "byte list"

text \<open>
  Response headers. \<open>Last_Modified\<close> carries the time stamp whose
  \<^verbatim>\<open>toUTCString()\<close> rendering the header holds; the rendering itself is not modelled.
\<close>

record Headers =
  Cache_Control :: "string option"
  ETag :: "string option"
  Last_Modified :: "nat option"
  Content_Type :: "string option"

datatype body = NoBody | Bytes "byte list" | Text string

record Response =
  status :: nat
  headers :: Headers
  body :: body

definition no_headers :: Headers where
  "no_headers =
     \<lparr>Cache_Control = None, ETag = None, Last_Modified = None, Content_Type = None\<rparr>"

text \<open>JavaScript truthiness of a \<^verbatim>\<open>string | null\<close>: neither \<^verbatim>\<open>null\<close> nor empty.\<close>

definition truthy :: "string option \<Rightarrow> bool" where
  "truthy s = (s \<noteq> None \<and> s \<noteq> Some [])"

text \<open>The field initialiser of \<^verbatim>\<open>eyes\<close>, and a room that was never used.\<close>

definition eyes_init :: "eye \<Rightarrow> EyeState" where
  "eyes_init = (\<lambda>e. \<lparr>bytes = None, etag = None, updatedAt = 0\<rparr>)"

definition room_init :: PainterRoom where
  "room_init = \<lparr>eyes = eyes_init, storage = None\<rparr>"

definition load :: "PainterRoom \<Rightarrow> PainterRoom" where
  "load st = (case storage st of Some saved \<Rightarrow> st\<lparr>eyes := saved\<rparr> | None \<Rightarrow> st)"

definition persist :: "PainterRoom \<Rightarrow> PainterRoom" where
  "persist st = st\<lparr>storage := Some (eyes st)\<rparr>"

text \<open>
  \<^verbatim>\<open>PainterRoom.fetch(req)\<close>, with the key the request addresses
  (\<^verbatim>\<open>(eyeParam === 'left' || eyeParam === 'right') ? eyeParam : 'left'\<close>) as a function of
  its own, as is the reload of the first statement
  (\<^verbatim>\<open>if (!this.eyes.left.bytes && !this.eyes.right.bytes) await this.load()\<close>);
  \<open>now\<close> is what \<^verbatim>\<open>Date.now()\<close> returns during the call.
  A \<^verbatim>\<open>Uint8Array\<close> is an object and therefore truthy even when empty, so \<^verbatim>\<open>!s.bytes\<close>
  is the test for \<^verbatim>\<open>null\<close>. A \<^verbatim>\<open>Response\<close> built from a string gets the platform's
  text content type.
\<close>

definition load_if_empty :: "PainterRoom \<Rightarrow> PainterRoom" where
  "load_if_empty st =
     (if bytes (eyes st Left) = None \<and> bytes (eyes st Right) = None then load st else st)"

definition request_eye :: "Request \<Rightarrow> eye" where
  "request_eye req =
     (if eyeParam req = Some ''left'' then Left
      else if eyeParam req = Some ''right'' then Right else Left)"

definition fetch :: "nat \<Rightarrow> Request \<Rightarrow> PainterRoom \<Rightarrow> Response \<times> PainterRoom" where
  "fetch now req st0 =
     (let eye = request_eye req;
          st = load_if_empty st0
      in if reqMethod req = ''GET'' \<or> reqMethod req = ''HEAD'' then
           (let s = eyes st eye;
                h0 = no_headers\<lparr>Cache_Control := Some ''no-store''\<rparr>;
                h1 = (if truthy (etag s) then h0\<lparr>ETag := etag s\<rparr> else h0);
                hs = (if updatedAt s \<noteq> 0 then h1\<lparr>Last_Modified := Some (updatedAt s)\<rparr> else h1);
                inm = ifNoneMatch req
            in if truthy inm \<and> truthy (etag s) \<and> inm = etag s
               then (\<lparr>status = 304, headers = hs, body = NoBody\<rparr>, st)
               else if reqMethod req = ''HEAD''
               then (\<lparr>status = 200, headers = hs, body = NoBody\<rparr>, st)
               else (case bytes s of
                       None \<Rightarrow> (\<lparr>status = 204, headers = hs, body = NoBody\<rparr>, st)
                     | Some bs \<Rightarrow>
                         (\<lparr>status = 200, headers = hs\<lparr>Content_Type := Some ''image/png''\<rparr>,
                           body = Bytes bs\<rparr>, st)))
         else if reqMethod req = ''PUT'' then
           (let buf = reqBody req;
                tag = hash buf;
                st' = persist (st\<lparr>eyes := (eyes st)
                        (eye := \<lparr>bytes = Some buf, etag = Some tag, updatedAt = now\<rparr>)\<rparr>)
            in (\<lparr>status = 204, headers = no_headers\<lparr>ETag := Some tag\<rparr>, body = NoBody\<rparr>, st'))
         else if reqMethod req = ''DELETE'' then
           (let st' = persist (st\<lparr>eyes := (eyes st)
                        (eye := \<lparr>bytes = None, etag = None, updatedAt = now\<rparr>)\<rparr>)
            in (\<lparr>status = 204, headers = no_headers, body = NoBody\<rparr>, st'))
         else (\<lparr>status = 405,
                 headers = no_headers\<lparr>Content_Type := Some ''text/plain;charset=UTF-8''\<rparr>,
                 body = Text ''Method not allowed''\<rparr>, st))"

text \<open>
  What can happen to a room: a request is served, or the runtime evicts the object, after
  which the next request meets a freshly constructed instance (the field initialiser
  again) over the same storage.
\<close>

datatype room_event = Fetch nat Request | Evict

fun room_step :: "room_event \<Rightarrow> PainterRoom \<Rightarrow> Response list \<times> PainterRoom" where
  "room_step (Fetch now req) st = (let (r, st') = fetch now req st in ([r], st'))"
| "room_step Evict st = ([], st\<lparr>eyes := eyes_init\<rparr>)"

text \<open>A history of events, from the left; the responses are collected in order.\<close>

fun room_run :: "room_event list \<Rightarrow> PainterRoom \<Rightarrow> Response list \<times> PainterRoom" where
  "room_run [] st = ([], st)"
| "room_run (ev # evs) st =
     (let (rs, st') = room_step ev st;
          (rs', st'') = room_run evs st'
      in (rs @ rs', st''))"

text \<open>Every replica of a record carries the tag computed from its content.\<close>

definition tags_canonical :: "(eye \<Rightarrow> EyeState) \<Rightarrow> bool" where
  "tags_canonical es = (\<forall>e. etag (es e) = map_option hash (bytes (es e)))"

definition room_ok :: "PainterRoom \<Rightarrow> bool" where
  "room_ok st =
     (tags_canonical (eyes st) \<and>
      (case storage st of None \<Rightarrow> True | Some saved \<Rightarrow> tags_canonical saved))"

section \<open>The worker: routing a request to a room\<close>

text \<open>
  The default export's \<^verbatim>\<open>fetch(req, env)\<close>. \<^verbatim>\<open>env.PAINTER_ROOM\<close> maps every room name
  to one durable object (\<^verbatim>\<open>idFromName\<close>, \<^verbatim>\<open>get\<close>), created on first use: a total
  function from names to room states. \<^verbatim>\<open>env.ASSETS.fetch\<close> is the platform's static
  asset service and is a parameter. \<^verbatim>\<open>x || 'global'\<close> replaces \<^verbatim>\<open>null\<close> and the empty
  string.
\<close>

type_synonym namespace = "string \<Rightarrow> PainterRoom"

definition worker_fetch ::
  "(Request \<Rightarrow> Response) \<Rightarrow> nat \<Rightarrow> Request \<Rightarrow> namespace \<Rightarrow> Response \<times> namespace" where
  "worker_fetch assets now req env =
     (if prefix ''/api/canvas'' (pathname req) then
        (let room = (if truthy (roomParam req) then the (roomParam req) else ''global'');
             (r, st') = fetch now req (env room)
         in (r, env(room := st')))
      else (assets req, env))"

section \<open>The client: \<^verbatim>\<open>Painter\<close>'s dirty flags, browser timers, \<^verbatim>\<open>SnapshotSync\<close>\<close>

text \<open>
  What the client draws is kept as the list of canvas operations performed so far; an
  \<^verbatim>\<open>ImageBitmap\<close> is represented by the bytes it was decoded from. Network calls are
  recorded in the order in which they are issued.
\<close>

datatype canvas_op = ClearRect eye | DrawImage eye "byte list" | Stamp eye

datatype net_call = NetPUT eye "byte list" | NetHEAD eye | NetGET eye | NetDELETE eye

text \<open>
  \<open>sync_etag\<close> and \<open>sync_timers\<close> are the fields \<^verbatim>\<open>etag\<close> and \<^verbatim>\<open>timers\<close> of
  \<^verbatim>\<open>SnapshotSync\<close>, \<open>dirty\<close> is \<^verbatim>\<open>Painter.dirty\<close>. \<open>pending\<close> is the browser's timer
  table (handle to due time and the eye whose save callback it will run) and
  \<open>nextHandle\<close> the handle that \<^verbatim>\<open>setTimeout\<close> hands out next.
\<close>

record Client =
  sync_etag :: "eye \<Rightarrow> string option"
  sync_timers :: "eye \<Rightarrow> nat option"
  dirty :: "eye \<Rightarrow> bool"
  canvas :: "canvas_op list"
  pending :: "nat \<Rightarrow> (nat \<times> eye) option"
  nextHandle :: nat
  sent :: "net_call list"

text \<open>The state after both constructors ran (\<^verbatim>\<open>Painter\<close> clears both canvases).\<close>

definition client_init :: Client where
  "client_init =
     \<lparr>sync_etag = (\<lambda>e. None), sync_timers = (\<lambda>e. None), dirty = (\<lambda>e. False),
      canvas = [ClearRect Left, ClearRect Right], pending = (\<lambda>h. None), nextHandle = 1,
      sent = []\<rparr>"

subsection \<open>\<^verbatim>\<open>Painter\<close>\<close>

definition isDirty :: "Client \<Rightarrow> eye \<Rightarrow> bool" where
  "isDirty st eye = dirty st eye"

definition markSaved :: "eye \<Rightarrow> Client \<Rightarrow> Client" where
  "markSaved eye st = st\<lparr>dirty := (dirty st)(eye := False)\<rparr>"

definition clearEye :: "eye \<Rightarrow> bool \<Rightarrow> Client \<Rightarrow> Client" where
  "clearEye eye markDirty st =
     (let st' = st\<lparr>canvas := canvas st @ [ClearRect eye]\<rparr>
      in if markDirty then st'\<lparr>dirty := (dirty st')(eye := True)\<rparr> else st')"

definition drawBitmapToEye :: "eye \<Rightarrow> byte list \<Rightarrow> bool \<Rightarrow> Client \<Rightarrow> Client" where
  "drawBitmapToEye eye bmp markDirty st =
     (let st' = st\<lparr>canvas := canvas st @ [ClearRect eye, DrawImage eye bmp]\<rparr>
      in if markDirty then st'\<lparr>dirty := (dirty st')(eye := True)\<rparr>
         else st'\<lparr>dirty := (dirty st')(eye := False)\<rparr>)"

definition stamp :: "eye \<Rightarrow> Client \<Rightarrow> Client" where
  "stamp eye st = st\<lparr>canvas := canvas st @ [Stamp eye], dirty := (dirty st)(eye := True)\<rparr>"

subsection \<open>\<^verbatim>\<open>window.setTimeout\<close> and \<^verbatim>\<open>window.clearTimeout\<close>\<close>

definition setTimeout :: "nat \<Rightarrow> nat \<Rightarrow> eye \<Rightarrow> Client \<Rightarrow> nat \<times> Client" where
  "setTimeout now delay eye st =
     (nextHandle st,
      st\<lparr>pending := (pending st)(nextHandle st := Some (now + delay, eye)),
         nextHandle := Suc (nextHandle st)\<rparr>)"

definition clearTimeout :: "nat \<Rightarrow> Client \<Rightarrow> Client" where
  "clearTimeout h st = st\<lparr>pending := (pending st)(h := None)\<rparr>"

subsection \<open>\<^verbatim>\<open>SnapshotSync\<close>\<close>

text \<open>\<^verbatim>\<open>res.ok\<close>, and the bytes of \<^verbatim>\<open>res.blob()\<close>.\<close>

definition ok :: "Response \<Rightarrow> bool" where
  "ok r = (200 \<le> status r \<and> status r \<le> 299)"

fun body_bytes :: "body \<Rightarrow> byte list" where
  "body_bytes NoBody = []"
| "body_bytes (Bytes bs) = bs"
| "body_bytes (Text s) = map (\<lambda>c. of_nat (of_char c)) s"

text \<open>
  The request behind a network call: \<^verbatim>\<open>url(eye)\<close> is
  \<^verbatim>\<open>${baseUrl}/api/canvas?eye=${eye}\<close>, so the client names no room and sends no
  \<^verbatim>\<open>If-None-Match\<close>.
\<close>

definition eye_name :: "eye \<Rightarrow> string" where
  "eye_name e = (case e of Left \<Rightarrow> ''left'' | Right \<Rightarrow> ''right'')"

definition url_request :: "string \<Rightarrow> eye \<Rightarrow> byte list \<Rightarrow> Request" where
  "url_request m e b =
     \<lparr>reqMethod = m, pathname = ''/api/canvas'', roomParam = None, eyeParam = Some (eye_name e),
      ifNoneMatch = None, reqBody = b\<rparr>"

fun request_of :: "net_call \<Rightarrow> Request" where
  "request_of (NetPUT e b) = url_request ''PUT'' e b"
| "request_of (NetHEAD e) = url_request ''HEAD'' e []"
| "request_of (NetGET e) = url_request ''GET'' e []"
| "request_of (NetDELETE e) = url_request ''DELETE'' e []"

text \<open>\<^verbatim>\<open>scheduleSave(eye)\<close>, called at time \<open>now\<close>.\<close>

definition scheduleSave :: "nat \<Rightarrow> eye \<Rightarrow> Client \<Rightarrow> Client" where
  "scheduleSave now eye st =
     (let st1 = (case sync_timers st eye of Some h \<Rightarrow> clearTimeout h st | None \<Rightarrow> st);
          (h, st2) = setTimeout now 900 eye st1
      in st2\<lparr>sync_timers := (sync_timers st2)(eye := Some h)\<rparr>)"

text \<open>
  The timer callback of \<^verbatim>\<open>scheduleSave\<close>, in the two pieces that the network call
  separates. \<open>save_fired\<close> runs from the start of the callback to its \<^verbatim>\<open>return\<close> or to
  the \<^verbatim>\<open>fetch\<close> of the PUT; \<open>blob\<close> is what \<^verbatim>\<open>exportPNG\<close> resolves to. \<open>save_settled\<close>
  is the rest, run when the \<^verbatim>\<open>fetch\<close> settles: \<open>None\<close> is a rejected promise (network
  error), after which the callback throws and nothing more runs.
\<close>

definition save_fired :: "eye \<Rightarrow> byte list \<Rightarrow> Client \<Rightarrow> Client" where
  "save_fired eye blob st =
     (if \<not> isDirty st eye then st
      else (let tag = hashBlob blob
            in if Some tag = sync_etag st eye then markSaved eye st
               else st\<lparr>sent := sent st @ [NetPUT eye blob]\<rparr>))"

definition save_settled :: "eye \<Rightarrow> byte list \<Rightarrow> Response option \<Rightarrow> Client \<Rightarrow> Client" where
  "save_settled eye blob res st =
     (case res of
        None \<Rightarrow> st
      | Some r \<Rightarrow>
          if ok r then
            (let newTag = ETag (headers r);
                 st' = st\<lparr>sync_etag := (sync_etag st)
                         (eye := Some (case newTag of Some t \<Rightarrow> t | None \<Rightarrow> hashBlob blob))\<rparr>
             in markSaved eye st')
          else st)"

text \<open>
  The browser runs a timer: the handle leaves the table and the callback starts. A handle
  that is not pending, or not yet due, does nothing.
\<close>

definition timer_fire :: "nat \<Rightarrow> nat \<Rightarrow> byte list \<Rightarrow> Client \<Rightarrow> Client" where
  "timer_fire now h blob st =
     (case pending st h of
        None \<Rightarrow> st
      | Some (due, eye) \<Rightarrow>
          if now < due then st
          else save_fired eye blob (st\<lparr>pending := (pending st)(h := None)\<rparr>))"

text \<open>
  \<^verbatim>\<open>pull(eye)\<close>: the GET is issued, and when it settles the response is applied.
  \<open>decodes\<close> tells whether \<^verbatim>\<open>createImageBitmap\<close> accepts the body; when it rejects,
  \<^verbatim>\<open>pull\<close> throws before it touches anything.
\<close>

definition pull_begin :: "eye \<Rightarrow> Client \<Rightarrow> Client" where
  "pull_begin eye st = st\<lparr>sent := sent st @ [NetGET eye]\<rparr>"

definition pull_settled :: "eye \<Rightarrow> Response option \<Rightarrow> bool \<Rightarrow> Client \<Rightarrow> Client" where
  "pull_settled eye res decodes st =
     (case res of
        None \<Rightarrow> st
      | Some r \<Rightarrow>
          if status r = 200 then
            (if decodes then
               (let st' = drawBitmapToEye eye (body_bytes (body r)) False st
                in st'\<lparr>sync_etag := (sync_etag st')(eye := ETag (headers r))\<rparr>)
             else st)
          else if status r = 204 then
            (let st' = clearEye eye False st
             in st'\<lparr>sync_etag := (sync_etag st')(eye := None)\<rparr>)
          else st)"

text \<open>\<^verbatim>\<open>check(eye)\<close>, the body of the poll interval: a HEAD, then possibly a pull.\<close>

definition check_begin :: "eye \<Rightarrow> Client \<Rightarrow> Client" where
  "check_begin eye st = st\<lparr>sent := sent st @ [NetHEAD eye]\<rparr>"

definition check_settled :: "eye \<Rightarrow> Response option \<Rightarrow> Client \<Rightarrow> Client" where
  "check_settled eye res st =
     (case res of
        None \<Rightarrow> st
      | Some r \<Rightarrow>
          if \<not> ok r then st
          else (let remote = ETag (headers r)
                in if truthy remote \<and> remote \<noteq> sync_etag st eye
                   then pull_begin eye (st\<lparr>sync_etag := (sync_etag st)(eye := remote)\<rparr>)
                   else st))"

text \<open>\<^verbatim>\<open>clearRemote(eye)\<close>: a DELETE; once it resolves, whatever its status, the tag is reset.\<close>

definition clearRemote_begin :: "eye \<Rightarrow> Client \<Rightarrow> Client" where
  "clearRemote_begin eye st = st\<lparr>sent := sent st @ [NetDELETE eye]\<rparr>"

definition clearRemote_settled :: "eye \<Rightarrow> Response option \<Rightarrow> Client \<Rightarrow> Client" where
  "clearRemote_settled eye res st =
     (case res of None \<Rightarrow> st | Some r \<Rightarrow> st\<lparr>sync_etag := (sync_etag st)(eye := None)\<rparr>)"

text \<open>\<^verbatim>\<open>start()\<close>: the two initial pulls (the intervals show up as \<open>PollTick\<close> events).\<close>

definition start :: "Client \<Rightarrow> Client" where
  "start st = pull_begin Right (pull_begin Left st)"

text \<open>
  Everything that can happen to the client, as wired up in the main module: pointer
  events paint (\<^verbatim>\<open>stamp\<close>) and, on release, call \<^verbatim>\<open>scheduleSave\<close>; the clear buttons call
  \<^verbatim>\<open>painter.clearEye(eye)\<close> and \<^verbatim>\<open>clearRemote(eye)\<close>; timers fire, the poll interval
  ticks, and network calls settle with whatever the network delivers.
\<close>

datatype client_event =
    Start
  | PointerStroke eye
  | PointerUp nat eye
  | TimerFire nat nat "byte list"
  | SaveSettled eye "byte list" "Response option"
  | PollTick eye
  | CheckSettled eye "Response option"
  | PullSettled eye "Response option" bool
  | ClearClick eye
  | ClearSettled eye "Response option"

fun client_step :: "client_event \<Rightarrow> Client \<Rightarrow> Client" where
  "client_step Start st = start st"
| "client_step (PointerStroke e) st = stamp e st"
| "client_step (PointerUp now e) st = scheduleSave now e st"
| "client_step (TimerFire now h blob) st = timer_fire now h blob st"
| "client_step (SaveSettled e blob res) st = save_settled e blob res st"
| "client_step (PollTick e) st = check_begin e st"
| "client_step (CheckSettled e res) st = check_settled e res st"
| "client_step (PullSettled e res decodes) st = pull_settled e res decodes st"
| "client_step (ClearClick e) st = clearRemote_begin e (clearEye e True st)"
| "client_step (ClearSettled e res) st = clearRemote_settled e res st"

fun client_run :: "client_event list \<Rightarrow> Client \<Rightarrow> Client" where
  "client_run [] st = st"
| "client_run (ev # evs) st = client_run evs (client_step ev st)"

text \<open>
  The timer discipline of \<^verbatim>\<open>scheduleSave\<close>: every pending timer is the one recorded for its
  eye in \<^verbatim>\<open>timers\<close>, and no handle handed out so far will be handed out again.
\<close>

definition timers_ok :: "Client \<Rightarrow> bool" where
  "timers_ok st =
     (\<forall>h due e. pending st h = Some (due, e) \<longrightarrow> h < nextHandle st \<and> sync_timers st e = Some h)"

text \<open>A push has failed when the network call was rejected or the response is not ok.\<close>

definition failed :: "Response option \<Rightarrow> bool" where
  "failed res = (case res of None \<Rightarrow> True | Some r \<Rightarrow> \<not> ok r)"

section \<open>Scenarios\<close>

text \<open>
  Concrete requests, room states and responses used in the examples below. The responses
  are the ones the server model gives to the requests the client model sends; the times
  are those of the server's clock.
\<close>

text \<open>A PUT whose \<^verbatim>\<open>eye\<close> parameter is neither key, and a DELETE that names no key and no room.\<close>

definition centre_put :: Request where
  "centre_put = \<lparr>reqMethod = ''PUT'', pathname = ''/api/canvas'', roomParam = None,
      eyeParam = Some ''centre'', ifNoneMatch = None, reqBody = [9, 9]\<rparr>"

definition bare_delete :: Request where
  "bare_delete = \<lparr>reqMethod = ''DELETE'', pathname = ''/api/canvas/x'', roomParam = None,
      eyeParam = None, ifNoneMatch = None, reqBody = []\<rparr>"

text \<open>
  A room in which the bytes 1, 2, 3 were put to the left eye at time 1; the same room after
  a DELETE at time 3, and, alternatively, after a PUT of the bytes 9, 9 at time 3.
\<close>

definition room_put123 :: PainterRoom where
  "room_put123 = snd (fetch 1 (request_of (NetPUT Left [1, 2, 3])) room_init)"

definition room_deleted :: PainterRoom where
  "room_deleted = snd (fetch 3 (request_of (NetDELETE Left)) room_put123)"

definition room_put99 :: PainterRoom where
  "room_put99 = snd (fetch 3 (request_of (NetPUT Left [9, 9])) room_put123)"

text \<open>
  The answer to a GET at time 2 (content 1, 2, 3); to a HEAD at time 4 after the DELETE;
  to a HEAD at time 4 and to a GET at time 5 after the second PUT.
\<close>

definition get_123 :: Response where
  "get_123 = fst (fetch 2 (request_of (NetGET Left)) room_put123)"

definition head_deleted :: Response where
  "head_deleted = fst (fetch 4 (request_of (NetHEAD Left)) room_deleted)"

definition head_99 :: Response where
  "head_99 = fst (fetch 4 (request_of (NetHEAD Left)) room_put99)"

definition get_99 :: Response where
  "get_99 = fst (fetch 5 (request_of (NetGET Left)) room_put99)"

section \<open>Properties of the tags\<close>

declare toString16.simps [simp del]

lemma length_be_bytes: "length (be_bytes n v) = n"
  by (simp add: be_bytes_def)

lemma length_sha256_round: "length v = 8 \<Longrightarrow> length (sha256_round v kw) = 8"
proof -
  assume "length v = 8"
  then obtain a b c d e f g h where v: "v = [a, b, c, d, e, f, g, h]"
    by (auto simp: length_Suc_conv eval_nat_numeral)
  obtain k w where kw: "kw = (k, w)" by (cases kw)
  show ?thesis by (simp add: v kw Let_def)
qed

lemma length_foldl_round: "length v = 8 \<Longrightarrow> length (foldl sha256_round v kws) = 8"
  by (induction kws arbitrary: v) (simp_all add: length_sha256_round)

lemma length_sha256_block: "length hs = 8 \<Longrightarrow> length (sha256_block hs blk) = 8"
  by (simp add: sha256_block_def Let_def length_foldl_round)

lemma length_foldl_block: "length hs = 8 \<Longrightarrow> length (foldl sha256_block hs blks) = 8"
  by (induction blks arbitrary: hs) (simp_all add: length_sha256_block)

lemma length_concat_be_bytes: "length (concat (map (be_bytes 4) ws)) = 4 * length ws"
  by (induction ws) (simp_all add: length_be_bytes)

text \<open>A digest has 32 bytes, whatever the message.\<close>

lemma length_sha256: "length (sha256 m) = 32"
  by (simp add: sha256_def Let_def length_concat_be_bytes length_foldl_block sha256_H0_def)

text \<open>The test vector of the standard: the digest of the three bytes of "abc".\<close>

lemma sha256_abc:
  "lowercase_hex (sha256 [0x61, 0x62, 0x63]) =
     ''ba7816bf8f01cfea414140de5dae2223b00361a396177a9cb410ff61f20015ad''"
  by code_simp

lemma hexDigit_0: "hexDigit 0 = CHR ''0''"
  by (simp add: hexDigit_def)

text \<open>On a byte, \<^verbatim>\<open>toString(16).padStart(2, '0')\<close> gives exactly two digits.\<close>

lemma byte_hex:
  "n < 256 \<Longrightarrow> padStart 2 CHR ''0'' (toString16 n) = [hexDigit (n div 16), hexDigit (n mod 16)]"
proof (cases "n < 16")
  case True
  then show ?thesis by (simp add: toString16.simps [of n] padStart_def hexDigit_0)
next
  case False
  assume "n < 256"
  then have "n div 16 < 16" by simp
  then have "toString16 (n div 16) = [hexDigit (n div 16)]"
    by (simp add: toString16.simps [of "n div 16"])
  with False show ?thesis by (simp add: toString16.simps [of n] padStart_def)
qed

lemma unat_byte_bound: "unat (b :: byte) < 256"
  using unsigned_less [of b, where ?'a = nat] by simp

lemma hash_lowercase_hex: "hash m = lowercase_hex (sha256 m)"
  by (simp add: hash_def lowercase_hex_def Let_def byte_hex unat_byte_bound)

lemma hashBlob_lowercase_hex: "hashBlob m = lowercase_hex (sha256 m)"
  by (simp add: hashBlob_def lowercase_hex_def Let_def byte_hex unat_byte_bound)

lemma length_lowercase_hex: "length (lowercase_hex bs) = 2 * length bs"
  by (induction bs) (simp_all add: lowercase_hex_def)

lemma length_hash: "length (hash m) = 64"
  by (simp add: hash_lowercase_hex length_lowercase_hex length_sha256)

lemma hash_nonempty: "hash m \<noteq> []"
  using length_hash [of m] by auto

lemma truthy_hash: "truthy (Some (hash m))"
  by (simp add: truthy_def hash_nonempty)

text \<open>The two tags of the specification's scenario, computed.\<close>

lemma hash_123:
  "hash [1, 2, 3] = ''039058c6f2c0cb492c533b0a4d14ef77cc0f78abccced5287d84a1a2011cfb81''"
  by code_simp

lemma hash_99:
  "hash [9, 9] = ''31609426297325bdb28c86ab3ceeed4a3c438966733fd61b8aea00ee8b23b7bc''"
  by code_simp

text \<open>
  Claim C9. The client and the server compute tags with the same function: for every byte
  sequence, \<^verbatim>\<open>SnapshotSync.hashBlob\<close> and \<^verbatim>\<open>PainterRoom.hash\<close> return the same string,
  and that string is the lowercase hexadecimal SHA-256 digest of the bytes (64
  characters).
\<close>

theorem client_server_same_hash:
  "hashBlob b = hash b \<and> hash b = lowercase_hex (sha256 b) \<and> length (hash b) = 64"
  by (simp add: hashBlob_lowercase_hex hash_lowercase_hex length_lowercase_hex length_sha256)

section \<open>Properties of the server store\<close>

lemma load_if_empty_present: "bytes (eyes st e) \<noteq> None \<Longrightarrow> load_if_empty st = st"
  by (cases e) (auto simp: load_if_empty_def)

lemma fetch_put:
  "reqMethod req = ''PUT'' \<Longrightarrow>
   fetch now req st =
     (\<lparr>status = 204, headers = no_headers\<lparr>ETag := Some (hash (reqBody req))\<rparr>, body = NoBody\<rparr>,
      persist (load_if_empty st\<lparr>eyes := (eyes (load_if_empty st))(request_eye req :=
         \<lparr>bytes = Some (reqBody req), etag = Some (hash (reqBody req)), updatedAt = now\<rparr>)\<rparr>))"
  by (simp add: fetch_def Let_def)

lemma fetch_get_present:
  assumes "reqMethod req = ''GET''"
    and "bytes (eyes st (request_eye req)) = Some b"
    and "etag (eyes st (request_eye req)) = Some (hash b)"
    and "ifNoneMatch req \<noteq> Some (hash b)"
  shows "fetch now req st =
     (\<lparr>status = 200,
       headers = \<lparr>Cache_Control = Some ''no-store'', ETag = Some (hash b),
                  Last_Modified = (if updatedAt (eyes st (request_eye req)) \<noteq> 0
                                   then Some (updatedAt (eyes st (request_eye req))) else None),
                  Content_Type = Some ''image/png''\<rparr>,
       body = Bytes b\<rparr>, st)"
proof -
  have noload: "load_if_empty st = st"
    using assms(2) by (simp add: load_if_empty_present [of st "request_eye req"])
  show ?thesis
    using assms by (simp add: fetch_def Let_def noload truthy_hash no_headers_def)
qed

text \<open>
  Claim C1 (round trip at the store). A PUT of the bytes \<open>b\<close> to a key, immediately followed
  by a GET for the same key, is answered with status 200, body exactly \<open>b\<close>, and an
  \<^verbatim>\<open>ETag\<close> header equal to the one the PUT returned, which is the lowercase hexadecimal
  SHA-256 digest of \<open>b\<close>. This holds from every state of the room and for every pair of
  times. The GET is the plain read of the specification: it carries no
  \<^verbatim>\<open>If-None-Match\<close> header, or at least not one that names this very tag (which would make it
  the conditional read, answered with 304).
\<close>

theorem put_get_round_trip:
  assumes "reqMethod put = ''PUT''"
    and "reqMethod get = ''GET''"
    and "request_eye get = request_eye put"
    and "ifNoneMatch get \<noteq> Some (hash (reqBody put))"
  shows "status (fst (fetch t' get (snd (fetch t put st)))) = 200 \<and>
         body (fst (fetch t' get (snd (fetch t put st)))) = Bytes (reqBody put) \<and>
         ETag (headers (fst (fetch t' get (snd (fetch t put st))))) =
           ETag (headers (fst (fetch t put st))) \<and>
         ETag (headers (fst (fetch t put st))) = Some (hash (reqBody put)) \<and>
         hash (reqBody put) = lowercase_hex (sha256 (reqBody put))"
proof -
  let ?s = "snd (fetch t put st)"
  have b: "bytes (eyes ?s (request_eye get)) = Some (reqBody put)"
    and e: "etag (eyes ?s (request_eye get)) = Some (hash (reqBody put))"
    using assms(1,3) by (simp_all add: fetch_put persist_def)
  have g: "fetch t' get ?s =
     (\<lparr>status = 200,
       headers = \<lparr>Cache_Control = Some ''no-store'', ETag = Some (hash (reqBody put)),
                  Last_Modified = (if updatedAt (eyes ?s (request_eye get)) \<noteq> 0
                                   then Some (updatedAt (eyes ?s (request_eye get))) else None),
                  Content_Type = Some ''image/png''\<rparr>,
       body = Bytes (reqBody put)\<rparr>, ?s)"
    by (rule fetch_get_present [OF assms(2) b e assms(4)])
  have p: "ETag (headers (fst (fetch t put st))) = Some (hash (reqBody put))"
    using assms(1) by (simp add: fetch_put)
  show ?thesis
    by (simp add: g p hash_lowercase_hex)
qed

text \<open>The round trip of the bytes 1, 2, 3 through the left eye of a new room.\<close>

theorem put_get_round_trip_witness:
  "status (fst (fetch 20 (url_request ''GET'' Left []) (snd (fetch 10 (url_request ''PUT'' Left [1, 2, 3]) room_init)))) = 200 \<and>
   body (fst (fetch 20 (url_request ''GET'' Left []) (snd (fetch 10 (url_request ''PUT'' Left [1, 2, 3]) room_init)))) = Bytes [1, 2, 3] \<and>
   ETag (headers (fst (fetch 20 (url_request ''GET'' Left []) (snd (fetch 10 (url_request ''PUT'' Left [1, 2, 3]) room_init))))) =
     Some ''039058c6f2c0cb492c533b0a4d14ef77cc0f78abccced5287d84a1a2011cfb81''"
  using put_get_round_trip [of "url_request ''PUT'' Left [1, 2, 3]" "url_request ''GET'' Left []" 20 10 room_init]
  by (simp add: url_request_def request_eye_def eye_name_def hash_123)

lemma room_ok_load_if_empty: "room_ok st \<Longrightarrow> room_ok (load_if_empty st)"
  by (auto simp: room_ok_def load_if_empty_def load_def split: option.splits)

lemma room_ok_fetch: "room_ok st \<Longrightarrow> room_ok (snd (fetch now req st))"
proof -
  assume "room_ok st"
  then have ok: "room_ok (load_if_empty st)" by (rule room_ok_load_if_empty)
  then show ?thesis
    by (auto simp: fetch_def Let_def room_ok_def persist_def tags_canonical_def
             split: option.splits)
qed

lemma room_ok_step: "room_ok st \<Longrightarrow> room_ok (snd (room_step ev st))"
proof (cases ev)
  case (Fetch now req)
  assume "room_ok st"
  then have "room_ok (snd (fetch now req st))" by (rule room_ok_fetch)
  then show ?thesis by (simp add: Fetch split_beta)
next
  case Evict
  assume "room_ok st"
  then show ?thesis
    by (simp add: Evict room_ok_def tags_canonical_def eyes_init_def)
qed

lemma room_ok_run: "room_ok st \<Longrightarrow> room_ok (snd (room_run evs st))"
proof (induction evs arbitrary: st)
  case Nil
  then show ?case by simp
next
  case (Cons ev evs)
  have "room_ok (snd (room_step ev st))" using Cons.prems by (rule room_ok_step)
  then have "room_ok (snd (room_run evs (snd (room_step ev st))))" by (rule Cons.IH)
  then show ?case by (simp add: split_beta)
qed

lemma room_ok_init: "room_ok room_init"
  by (simp add: room_ok_def room_init_def tags_canonical_def eyes_init_def)

text \<open>
  Claim C2 (store invariant). In every state that a room reaches from its initial state by
  any sequence of requests (GET, HEAD, PUT, DELETE or any other method) and evictions, an
  eviction being followed by a reload of the persisted record, the tag of each eye is
  \<^verbatim>\<open>null\<close> exactly when its content is \<^verbatim>\<open>null\<close>; and two replicas, of any eyes in any two
  such states, that hold equal content hold equal tags.
\<close>

theorem store_invariant:
  "(etag (eyes (snd (room_run evs room_init)) e) = None \<longleftrightarrow>
      bytes (eyes (snd (room_run evs room_init)) e) = None) \<and>
   (bytes (eyes (snd (room_run evs room_init)) e) = bytes (eyes (snd (room_run evs' room_init)) e') \<longrightarrow>
      etag (eyes (snd (room_run evs room_init)) e) = etag (eyes (snd (room_run evs' room_init)) e'))"
proof -
  have 1: "room_ok (snd (room_run evs room_init))" and 2: "room_ok (snd (room_run evs' room_init))"
    by (rule room_ok_run [OF room_ok_init])+
  show ?thesis
    using 1 2 by (auto simp: room_ok_def tags_canonical_def split: option.splits)
qed

lemmas room_eval =
  fetch_def load_if_empty_def load_def persist_def room_init_def eyes_init_def
  url_request_def request_eye_def eye_name_def Let_def truthy_def no_headers_def

text \<open>
  Two rooms with different histories: the same bytes were put to the left eye of one and
  to the right eye of the other, which was then evicted and read again.
\<close>

theorem store_invariant_witness:
  "bytes (eyes (snd (room_run [Fetch 1 (url_request ''PUT'' Left [1, 2, 3])] room_init)) Left) =
     bytes (eyes (snd (room_run [Fetch 7 (url_request ''PUT'' Right [1, 2, 3]), Evict,
                                 Fetch 9 (url_request ''GET'' Left [])] room_init)) Right) \<and>
   etag (eyes (snd (room_run [Fetch 1 (url_request ''PUT'' Left [1, 2, 3])] room_init)) Left) =
     etag (eyes (snd (room_run [Fetch 7 (url_request ''PUT'' Right [1, 2, 3]), Evict,
                                Fetch 9 (url_request ''GET'' Left [])] room_init)) Right) \<and>
   bytes (eyes (snd (room_run [Fetch 1 (url_request ''PUT'' Left [1, 2, 3])] room_init)) Left) = Some [1, 2, 3]"
  using store_invariant [of "[Fetch 1 (url_request ''PUT'' Left [1, 2, 3])]" Left
      "[Fetch 7 (url_request ''PUT'' Right [1, 2, 3]), Evict, Fetch 9 (url_request ''GET'' Left [])]" Right]
  by (simp add: room_eval)

lemma put_response:
  "reqMethod req = ''PUT'' \<Longrightarrow>
   fst (fetch now req st) =
     \<lparr>status = 204, headers = no_headers\<lparr>ETag := Some (hash (reqBody req))\<rparr>, body = NoBody\<rparr>"
  by (simp add: fetch_put)

lemma put_eye:
  "reqMethod req = ''PUT'' \<Longrightarrow>
   eyes (snd (fetch now req st)) (request_eye req) =
     \<lparr>bytes = Some (reqBody req), etag = Some (hash (reqBody req)), updatedAt = now\<rparr>"
  by (simp add: fetch_put persist_def)

lemma put_other_eye:
  "reqMethod req = ''PUT'' \<Longrightarrow> e \<noteq> request_eye req \<Longrightarrow>
   eyes (snd (fetch now req st)) e = eyes (load_if_empty st) e"
  by (simp add: fetch_put persist_def)

lemma put_persisted:
  "reqMethod req = ''PUT'' \<Longrightarrow>
   storage (snd (fetch now req st)) = Some (eyes (snd (fetch now req st)))"
  by (simp add: fetch_put persist_def)

lemma put_repeat:
  assumes "reqMethod req = ''PUT''"
    and "eyes st (request_eye req) =
           \<lparr>bytes = Some (reqBody req), etag = Some (hash (reqBody req)), updatedAt = u\<rparr>"
    and "storage st = Some (eyes st)"
  shows "fst (room_run (map (\<lambda>t. Fetch t req) ts) st) =
           replicate (length ts)
             \<lparr>status = 204, headers = no_headers\<lparr>ETag := Some (hash (reqBody req))\<rparr>, body = NoBody\<rparr> \<and>
         (\<forall>e. eyes (snd (room_run (map (\<lambda>t. Fetch t req) ts) st)) e =
            (if e = request_eye req
             then \<lparr>bytes = Some (reqBody req), etag = Some (hash (reqBody req)),
                   updatedAt = last (u # ts)\<rparr>
             else eyes st e)) \<and>
         storage (snd (room_run (map (\<lambda>t. Fetch t req) ts) st)) =
           Some (eyes (snd (room_run (map (\<lambda>t. Fetch t req) ts) st)))"
  using assms(2,3)
proof (induction ts arbitrary: st u)
  case Nil
  then show ?case by simp
next
  case (Cons t ts)
  let ?s1 = "snd (fetch t req st)"
  have "bytes (eyes st (request_eye req)) \<noteq> None" using Cons.prems(1) by simp
  then have noload: "load_if_empty st = st" by (rule load_if_empty_present)
  have e1: "eyes ?s1 (request_eye req) =
      \<lparr>bytes = Some (reqBody req), etag = Some (hash (reqBody req)), updatedAt = t\<rparr>"
    by (rule put_eye [OF assms(1)])
  have p1: "storage ?s1 = Some (eyes ?s1)"
    by (rule put_persisted [OF assms(1)])
  have other: "\<And>e. e \<noteq> request_eye req \<Longrightarrow> eyes ?s1 e = eyes st e"
    using put_other_eye [OF assms(1), of _ t st] by (simp add: noload)
  note ih = Cons.IH [OF e1 p1]
  have l: "last (u # t # ts) = last (t # ts)" by simp
  have unroll: "room_run (Fetch t req # map (\<lambda>t. Fetch t req) ts) st =
      (fst (fetch t req st) # fst (room_run (map (\<lambda>t. Fetch t req) ts) ?s1),
       snd (room_run (map (\<lambda>t. Fetch t req) ts) ?s1))"
    by (simp add: split_beta)
  show ?case
    unfolding list.map unroll
    using ih by (simp add: l other put_response [OF assms(1)] del: last.simps room_run.simps)
qed

text \<open>
  Claim C3 (idempotent put). The same PUT (same key, same bytes) issued any number of
  times in succession, at the times \<open>t # ts\<close>, is answered identically every time (status
  204, the same tag), and leaves the store as the first call left it: content and tag of
  every eye are the same, only the time stamp of the key moves to the time of the last
  call; and what is persisted is that state.
\<close>

theorem put_idempotent:
  assumes "reqMethod req = ''PUT''"
  shows "fst (room_run (map (\<lambda>t'. Fetch t' req) (t # ts)) st) =
           replicate (Suc (length ts))
             \<lparr>status = 204, headers = no_headers\<lparr>ETag := Some (hash (reqBody req))\<rparr>, body = NoBody\<rparr> \<and>
         eyes (snd (room_run (map (\<lambda>t'. Fetch t' req) (t # ts)) st)) =
           (eyes (snd (fetch t req st)))(request_eye req :=
              \<lparr>bytes = Some (reqBody req), etag = Some (hash (reqBody req)), updatedAt = last (t # ts)\<rparr>) \<and>
         storage (snd (room_run (map (\<lambda>t'. Fetch t' req) (t # ts)) st)) =
           Some (eyes (snd (room_run (map (\<lambda>t'. Fetch t' req) (t # ts)) st)))"
proof -
  let ?s1 = "snd (fetch t req st)"
  note rest = put_repeat [OF assms put_eye [OF assms, of t st] put_persisted [OF assms, of t st],
      where ts = ts]
  have unroll: "room_run (Fetch t req # map (\<lambda>t'. Fetch t' req) ts) st =
      (fst (fetch t req st) # fst (room_run (map (\<lambda>t'. Fetch t' req) ts) ?s1),
       snd (room_run (map (\<lambda>t'. Fetch t' req) ts) ?s1))"
    by (simp add: split_beta)
  have "eyes (snd (room_run (map (\<lambda>t'. Fetch t' req) ts) ?s1)) =
           (eyes ?s1)(request_eye req :=
              \<lparr>bytes = Some (reqBody req), etag = Some (hash (reqBody req)), updatedAt = last (t # ts)\<rparr>)"
    using rest by (intro ext) (simp del: last.simps)
  then show ?thesis
    unfolding list.map unroll
    using rest by (simp add: put_response [OF assms] del: last.simps room_run.simps)
qed

text \<open>Three puts of the bytes 1, 2, 3 to the left eye, at times 10, 20 and 30.\<close>

theorem put_idempotent_witness:
  "fst (room_run (map (\<lambda>t'. Fetch t' (url_request ''PUT'' Left [1, 2, 3])) [10, 20, 30]) room_init) =
     replicate 3 \<lparr>status = 204, headers = no_headers\<lparr>ETag := Some (hash [1, 2, 3])\<rparr>, body = NoBody\<rparr> \<and>
   eyes (snd (room_run (map (\<lambda>t'. Fetch t' (url_request ''PUT'' Left [1, 2, 3])) [10, 20, 30]) room_init)) =
     (eyes (snd (fetch 10 (url_request ''PUT'' Left [1, 2, 3]) room_init)))(Left :=
        \<lparr>bytes = Some [1, 2, 3], etag = Some (hash [1, 2, 3]), updatedAt = 30\<rparr>) \<and>
   storage (snd (room_run (map (\<lambda>t'. Fetch t' (url_request ''PUT'' Left [1, 2, 3])) [10, 20, 30]) room_init)) =
     Some (eyes (snd (room_run (map (\<lambda>t'. Fetch t' (url_request ''PUT'' Left [1, 2, 3])) [10, 20, 30]) room_init)))"
proof -
  have m: "reqMethod (url_request ''PUT'' Left [1, 2, 3]) = ''PUT''"
    and k: "request_eye (url_request ''PUT'' Left [1, 2, 3]) = Left"
    and b: "reqBody (url_request ''PUT'' Left [1, 2, 3]) = [1, 2, 3]"
    by (simp_all add: url_request_def request_eye_def eye_name_def)
  have n: "Suc (length [20, 30 :: nat]) = 3" and l: "last [10, 20, 30 :: nat] = 30"
    by simp_all
  show ?thesis
    using put_idempotent [OF m, of 10 "[20, 30]" room_init] unfolding k b n l .
qed

section \<open>Properties of the interface defaults\<close>

lemma request_eye_default:
  "eyeParam req \<noteq> Some ''left'' \<Longrightarrow> eyeParam req \<noteq> Some ''right'' \<Longrightarrow> request_eye req = Left"
  by (simp add: request_eye_def)

lemma fetch_eye_only:
  "request_eye req' = request_eye req \<Longrightarrow> reqMethod req' = reqMethod req \<Longrightarrow>
   ifNoneMatch req' = ifNoneMatch req \<Longrightarrow> reqBody req' = reqBody req \<Longrightarrow>
   fetch now req' st = fetch now req st"
  by (simp add: fetch_def Let_def)

text \<open>
  Claim C10 (interface defaults). When the \<^verbatim>\<open>eye\<close> parameter is absent or is any string
  other than \<^verbatim>\<open>left\<close> or \<^verbatim>\<open>right\<close>, the room treats the request, whatever its method,
  exactly as if it named the left eye; in particular such a PUT overwrites the left eye
  and such a DELETE clears it. When the \<^verbatim>\<open>room\<close> parameter is absent, the worker hands a
  request for the canvas interface (a path that starts with \<^verbatim>\<open>/api/canvas\<close>) to the room
  named \<^verbatim>\<open>global\<close>.
\<close>

theorem interface_defaults:
  "(eyeParam req \<noteq> Some ''left'' \<and> eyeParam req \<noteq> Some ''right'' \<longrightarrow>
      request_eye req = Left \<and>
      fetch now req st = fetch now (req\<lparr>eyeParam := Some ''left''\<rparr>) st \<and>
      (reqMethod req = ''PUT'' \<longrightarrow>
         bytes (eyes (snd (fetch now req st)) Left) = Some (reqBody req)) \<and>
      (reqMethod req = ''DELETE'' \<longrightarrow>
         bytes (eyes (snd (fetch now req st)) Left) = None)) \<and>
   (prefix ''/api/canvas'' (pathname req) \<and> roomParam req = None \<longrightarrow>
      worker_fetch assets now req env =
        (fst (fetch now req (env ''global'')),
         env(''global'' := snd (fetch now req (env ''global'')))))"
proof (intro conjI impI)
  assume a: "eyeParam req \<noteq> Some ''left'' \<and> eyeParam req \<noteq> Some ''right''"
  then show l: "request_eye req = Left" by (simp add: request_eye_def)
  have "request_eye (req\<lparr>eyeParam := Some ''left''\<rparr>) = Left" by (simp add: request_eye_def)
  with l show "fetch now req st = fetch now (req\<lparr>eyeParam := Some ''left''\<rparr>) st"
    by (simp add: fetch_eye_only)
  {
    assume "reqMethod req = ''PUT''"
    then show "bytes (eyes (snd (fetch now req st)) Left) = Some (reqBody req)"
      using put_eye [of req now st] l by simp
  }
  {
    assume "reqMethod req = ''DELETE''"
    then show "bytes (eyes (snd (fetch now req st)) Left) = None"
      using l by (simp add: fetch_def Let_def persist_def)
  }
next
  assume "prefix ''/api/canvas'' (pathname req) \<and> roomParam req = None"
  then show "worker_fetch assets now req env =
        (fst (fetch now req (env ''global'')),
         env(''global'' := snd (fetch now req (env ''global''))))"
    by (simp add: worker_fetch_def truthy_def split_beta Let_def)
qed

text \<open>The two example requests: each default is taken.\<close>

theorem interface_defaults_witness:
  "request_eye centre_put = Left \<and>
   bytes (eyes (snd (fetch 5 centre_put room_init)) Left) = Some [9, 9] \<and>
   bytes (eyes (snd (fetch 6 bare_delete (snd (fetch 5 centre_put room_init)))) Left) = None \<and>
   worker_fetch (\<lambda>r. \<lparr>status = 404, headers = no_headers, body = NoBody\<rparr>) 6 bare_delete
       (\<lambda>name. room_init) =
     (fst (fetch 6 bare_delete room_init),
      (\<lambda>name. room_init)(''global'' := snd (fetch 6 bare_delete room_init)))"
proof -
  have p: "eyeParam centre_put \<noteq> Some ''left'' \<and> eyeParam centre_put \<noteq> Some ''right''"
    and pm: "reqMethod centre_put = ''PUT''" and pb: "reqBody centre_put = [9, 9]"
    by (simp_all add: centre_put_def)
  have d: "eyeParam bare_delete \<noteq> Some ''left'' \<and> eyeParam bare_delete \<noteq> Some ''right''"
    and dm: "reqMethod bare_delete = ''DELETE''"
    and dr: "prefix ''/api/canvas'' (pathname bare_delete) \<and> roomParam bare_delete = None"
    by (simp_all add: bare_delete_def)
  have 1: "request_eye centre_put = Left"
    and 2: "bytes (eyes (snd (fetch 5 centre_put room_init)) Left) = Some (reqBody centre_put)"
    using interface_defaults [of centre_put 5 room_init] p pm by blast+
  have 3: "bytes (eyes (snd (fetch 6 bare_delete (snd (fetch 5 centre_put room_init)))) Left) = None"
    using interface_defaults [of bare_delete 6 "snd (fetch 5 centre_put room_init)"] d dm by blast
  have 4: "worker_fetch (\<lambda>r. \<lparr>status = 404, headers = no_headers, body = NoBody\<rparr>) 6 bare_delete
       (\<lambda>name. room_init) =
     (fst (fetch 6 bare_delete room_init),
      (\<lambda>name. room_init)(''global'' := snd (fetch 6 bare_delete room_init)))"
    using interface_defaults [of bare_delete 6 room_init
        "\<lambda>r. \<lparr>status = 404, headers = no_headers, body = NoBody\<rparr>" "\<lambda>name. room_init"] dr
    by blast
  show ?thesis
    using 1 2 3 4 unfolding pb by (intro conjI)
qed

section \<open>Properties of the client\<close>

lemmas client_eval =
  client_init_def isDirty_def markSaved_def clearEye_def drawBitmapToEye_def stamp_def
  setTimeout_def clearTimeout_def ok_def scheduleSave_def save_fired_def save_settled_def
  timer_fire_def pull_begin_def pull_settled_def check_begin_def check_settled_def
  clearRemote_begin_def clearRemote_settled_def start_def truthy_def Let_def

lemma get_123_eq:
  "get_123 = \<lparr>status = 200,
     headers = \<lparr>Cache_Control = Some ''no-store'', ETag = Some (hash [1, 2, 3]),
                Last_Modified = Some 1, Content_Type = Some ''image/png''\<rparr>,
     body = Bytes [1, 2, 3]\<rparr>"
  by (simp add: get_123_def room_put123_def room_eval hash_nonempty)

lemma head_deleted_eq:
  "head_deleted = \<lparr>status = 200,
     headers = \<lparr>Cache_Control = Some ''no-store'', ETag = None,
                Last_Modified = Some 3, Content_Type = None\<rparr>,
     body = NoBody\<rparr>"
  by (simp add: head_deleted_def room_deleted_def room_put123_def room_eval hash_nonempty)

lemma head_99_eq:
  "head_99 = \<lparr>status = 200,
     headers = \<lparr>Cache_Control = Some ''no-store'', ETag = Some (hash [9, 9]),
                Last_Modified = Some 3, Content_Type = None\<rparr>,
     body = NoBody\<rparr>"
  by (simp add: head_99_def room_put99_def room_put123_def room_eval hash_nonempty)

lemma get_99_eq:
  "get_99 = \<lparr>status = 200,
     headers = \<lparr>Cache_Control = Some ''no-store'', ETag = Some (hash [9, 9]),
                Last_Modified = Some 3, Content_Type = Some ''image/png''\<rparr>,
     body = Bytes [9, 9]\<rparr>"
  by (simp add: get_99_def room_put99_def room_put123_def room_eval hash_nonempty)

text \<open>
  Claim C4 (push suppression). When the debounce timer of a dirty key fires and the hash of
  the content that \<^verbatim>\<open>exportPNG\<close> delivers equals the tag cached for the key, the client
  issues no network call and marks the key clean; the cached tags stay as they are.
\<close>

theorem push_suppression:
  assumes "pending st h = Some (due, eye)" and "due \<le> now"
    and "isDirty st eye" and "sync_etag st eye = Some (hashBlob blob)"
  shows "sent (timer_fire now h blob st) = sent st \<and>
         \<not> isDirty (timer_fire now h blob st) eye \<and>
         sync_etag (timer_fire now h blob st) = sync_etag st"
  using assms by (simp add: timer_fire_def save_fired_def isDirty_def markSaved_def)

text \<open>
  The client has pulled the bytes 1, 2, 3; a stroke that leaves the picture as it was makes
  the eye dirty; when the timer fires nothing is sent.
\<close>

theorem push_suppression_witness:
  "isDirty (client_run [PullSettled Left (Some \<lparr>status = 200,
        headers = no_headers\<lparr>ETag := Some (hash [1, 2, 3])\<rparr>, body = Bytes [1, 2, 3]\<rparr>) True,
      PointerStroke Left, PointerUp 0 Left] client_init) Left \<and>
   sent (timer_fire 900 1 [1, 2, 3] (client_run [PullSettled Left (Some \<lparr>status = 200,
        headers = no_headers\<lparr>ETag := Some (hash [1, 2, 3])\<rparr>, body = Bytes [1, 2, 3]\<rparr>) True,
      PointerStroke Left, PointerUp 0 Left] client_init)) = [] \<and>
   \<not> isDirty (timer_fire 900 1 [1, 2, 3] (client_run [PullSettled Left (Some \<lparr>status = 200,
        headers = no_headers\<lparr>ETag := Some (hash [1, 2, 3])\<rparr>, body = Bytes [1, 2, 3]\<rparr>) True,
      PointerStroke Left, PointerUp 0 Left] client_init)) Left"
proof -
  let ?st = "client_run [PullSettled Left (Some \<lparr>status = 200,
        headers = no_headers\<lparr>ETag := Some (hash [1, 2, 3])\<rparr>, body = Bytes [1, 2, 3]\<rparr>) True,
      PointerStroke Left, PointerUp 0 Left] client_init"
  have 1: "pending ?st 1 = Some (900, Left)" and 2: "(900::nat) \<le> 900" and 3: "isDirty ?st Left"
    and 4: "sync_etag ?st Left = Some (hashBlob [1, 2, 3])" and 5: "sent ?st = []"
    by (simp_all add: client_eval no_headers_def hashBlob_lowercase_hex hash_lowercase_hex)
  show ?thesis
    using push_suppression [OF 1 2 3 4] 3 5 by simp
qed

lemma timers_ok_init: "timers_ok client_init"
  by (simp add: timers_ok_def client_init_def)

lemma timers_ok_scheduleSave:
  assumes "timers_ok st"
  shows "timers_ok (scheduleSave now eye st)"
proof -
  have lt: "\<And>h due e. pending st h = Some (due, e) \<Longrightarrow> h < Suc (nextHandle st)"
    and reg: "\<And>h due e. pending st h = Some (due, e) \<Longrightarrow> sync_timers st e = Some h"
    using assms by (auto simp: timers_ok_def less_SucI)
  show ?thesis
    unfolding timers_ok_def scheduleSave_def setTimeout_def clearTimeout_def Let_def
    by (cases "sync_timers st eye") (auto split: if_splits intro: lt reg dest: reg)
qed

lemma timers_ok_frame:
  "pending st' = pending st \<Longrightarrow> nextHandle st' = nextHandle st \<Longrightarrow>
   sync_timers st' = sync_timers st \<Longrightarrow> timers_ok st \<Longrightarrow> timers_ok st'"
  by (simp add: timers_ok_def)

lemma timers_ok_timer_fire: "timers_ok st \<Longrightarrow> timers_ok (timer_fire now h blob st)"
  unfolding timers_ok_def timer_fire_def save_fired_def markSaved_def isDirty_def Let_def
  by (auto split: option.splits prod.splits if_splits)

lemma timers_ok_step: "timers_ok st \<Longrightarrow> timers_ok (client_step ev st)"
proof (cases ev)
  case (PointerUp now e)
  assume "timers_ok st"
  then show ?thesis by (simp add: PointerUp timers_ok_scheduleSave)
next
  case (TimerFire now h blob)
  assume "timers_ok st"
  then show ?thesis by (simp add: TimerFire timers_ok_timer_fire)
qed (auto simp: timers_ok_def client_eval split: option.splits if_splits)

lemma timers_ok_run: "timers_ok st \<Longrightarrow> timers_ok (client_run evs st)"
  by (induction evs arbitrary: st) (simp_all add: timers_ok_step)

text \<open>
  Claim C5, as the code has it. The claim says that an armed timer is not reset by a further
  \<^verbatim>\<open>scheduleSave\<close>. The code does the opposite (\<^verbatim>\<open>clearTimeout\<close>, then a new
  \<^verbatim>\<open>setTimeout\<close>): in every state the client can reach, a \<^verbatim>\<open>scheduleSave\<close> for a key whose
  timer is armed cancels that timer and arms a new one, due 900 ms after this latest
  notification; it is then the only pending timer of the key.
\<close>

theorem debounce_restarts:
  assumes "sync_timers (client_run evs client_init) eye = Some h"
    and "pending (client_run evs client_init) h = Some (due, eye)"
  shows "pending (scheduleSave now eye (client_run evs client_init)) h = None \<and>
         pending (scheduleSave now eye (client_run evs client_init))
           (nextHandle (client_run evs client_init)) = Some (now + 900, eye) \<and>
         sync_timers (scheduleSave now eye (client_run evs client_init)) eye =
           Some (nextHandle (client_run evs client_init)) \<and>
         (\<forall>h' d. pending (scheduleSave now eye (client_run evs client_init)) h' = Some (d, eye) \<longrightarrow>
            h' = nextHandle (client_run evs client_init) \<and> d = now + 900)"
proof -
  let ?st = "client_run evs client_init"
  have ok: "timers_ok ?st" by (rule timers_ok_run [OF timers_ok_init])
  then have fresh: "h < nextHandle ?st" using assms(2) by (auto simp: timers_ok_def)
  have only: "\<And>h' d. pending ?st h' = Some (d, eye) \<Longrightarrow> h' = h"
    using ok assms(1) by (auto simp: timers_ok_def)
  show ?thesis
    using assms(1) fresh only
    by (auto simp: scheduleSave_def setTimeout_def clearTimeout_def split: if_splits)
qed

text \<open>A notification at time 0 and another at time 500.\<close>

theorem debounce_restarts_witness:
  "pending (scheduleSave 500 Left (client_run [PointerStroke Left, PointerUp 0 Left] client_init)) 1 = None \<and>
   pending (scheduleSave 500 Left (client_run [PointerStroke Left, PointerUp 0 Left] client_init)) 2 =
     Some (1400, Left) \<and>
   sync_timers (scheduleSave 500 Left (client_run [PointerStroke Left, PointerUp 0 Left] client_init)) Left =
     Some 2"
proof -
  let ?st = "client_run [PointerStroke Left, PointerUp 0 Left] client_init"
  have 1: "sync_timers ?st Left = Some 1" and 2: "pending ?st 1 = Some (900, Left)"
    and 3: "nextHandle ?st = 2"
    by (simp_all add: client_eval)
  show ?thesis
    using debounce_restarts [OF 1 2, of 500] unfolding 3 by simp
qed

text \<open>
  The claim C5 as stated fails: after notifications at times 0 and 500 the timer armed first
  (handle 1, due at 900) is gone, the pending one is due at 1400; at time 900 nothing is
  pushed, at time 1400 the push goes out.
\<close>

theorem debounce_not_reset_counterexample:
  "pending (client_run [PointerStroke Left, PointerUp 0 Left] client_init) 1 = Some (900, Left) \<and>
   pending (client_run [PointerStroke Left, PointerUp 0 Left, PointerStroke Left, PointerUp 500 Left]
      client_init) 1 = None \<and>
   pending (client_run [PointerStroke Left, PointerUp 0 Left, PointerStroke Left, PointerUp 500 Left]
      client_init) 2 = Some (1400, Left) \<and>
   sent (client_run [PointerStroke Left, PointerUp 0 Left, PointerStroke Left, PointerUp 500 Left,
      TimerFire 900 1 [1, 2, 3], TimerFire 900 2 [1, 2, 3]] client_init) = [] \<and>
   sent (client_run [PointerStroke Left, PointerUp 0 Left, PointerStroke Left, PointerUp 500 Left,
      TimerFire 900 1 [1, 2, 3], TimerFire 900 2 [1, 2, 3], TimerFire 1400 2 [1, 2, 3]] client_init) =
     [NetPUT Left [1, 2, 3]]"
  by (simp add: client_eval)

text \<open>
  The claim C6 as stated fails: the client holds the tag of the bytes 1, 2, 3; the key is
  deleted at the store, whose answer to the next HEAD is a 200 without \<^verbatim>\<open>ETag\<close>; the poll
  leaves the client exactly as it was, and the canvas still shows the picture.
\<close>

theorem remote_delete_not_propagated_counterexample:
  "status head_deleted = 200 \<and> ETag (headers head_deleted) = None \<and>
   sync_etag (client_run [Start, PullSettled Left (Some get_123) True, PollTick Left] client_init) Left =
     Some ''039058c6f2c0cb492c533b0a4d14ef77cc0f78abccced5287d84a1a2011cfb81'' \<and>
   client_run [Start, PullSettled Left (Some get_123) True, PollTick Left,
               CheckSettled Left (Some head_deleted)] client_init =
     client_run [Start, PullSettled Left (Some get_123) True, PollTick Left] client_init \<and>
   canvas (client_run [Start, PullSettled Left (Some get_123) True, PollTick Left,
               CheckSettled Left (Some head_deleted)] client_init) =
     [ClearRect Left, ClearRect Right, ClearRect Left, DrawImage Left [1, 2, 3]]"
  by (simp add: get_123_eq head_deleted_eq client_eval hash_123)

text \<open>
  Claim C6, as the code has it. A poll whose HEAD response carries no tag (or an empty one)
  changes nothing, whether or not the client holds a tag: no pull is issued, nothing is
  drawn or cleared, the cached tag stays; in fact no HEAD response ever touches the canvas
  by itself. The canvas is cleared for the consumer when a pull is answered with 204,
  which also resets the cached tag.
\<close>

theorem poll_ignores_absent_tag:
  "(\<not> truthy (ETag (headers r)) \<longrightarrow> check_settled eye (Some r) st = st) \<and>
   canvas (check_settled eye res st) = canvas st \<and>
   (status r' = 204 \<longrightarrow>
      pull_settled eye (Some r') decodes st =
        st\<lparr>canvas := canvas st @ [ClearRect eye], sync_etag := (sync_etag st)(eye := None)\<rparr>)"
  by (auto simp: check_settled_def pull_settled_def pull_begin_def clearEye_def Let_def
           split: option.splits)

text \<open>The HEAD response after the remote delete, and a 204 answer to a pull.\<close>

theorem poll_ignores_absent_tag_witness:
  "\<not> truthy (ETag (headers head_deleted)) \<and>
   check_settled Left (Some head_deleted)
     (client_run [Start, PullSettled Left (Some get_123) True, PollTick Left] client_init) =
     client_run [Start, PullSettled Left (Some get_123) True, PollTick Left] client_init \<and>
   status \<lparr>status = 204, headers = no_headers, body = NoBody\<rparr> = 204 \<and>
   canvas (pull_settled Left (Some \<lparr>status = 204, headers = no_headers, body = NoBody\<rparr>) True
     (client_run [Start, PullSettled Left (Some get_123) True, PollTick Left] client_init)) =
     [ClearRect Left, ClearRect Right, ClearRect Left, DrawImage Left [1, 2, 3], ClearRect Left]"
proof -
  let ?st = "client_run [Start, PullSettled Left (Some get_123) True, PollTick Left] client_init"
  have 1: "\<not> truthy (ETag (headers head_deleted))"
    by (simp add: head_deleted_eq truthy_def)
  have 2: "status \<lparr>status = 204, headers = no_headers, body = NoBody\<rparr> = 204" by simp
  have 3: "canvas ?st = [ClearRect Left, ClearRect Right, ClearRect Left, DrawImage Left [1, 2, 3]]"
    by (simp add: get_123_eq client_eval)
  show ?thesis
    using poll_ignores_absent_tag [of head_deleted Left ?st "None"
        "\<lparr>status = 204, headers = no_headers, body = NoBody\<rparr>" True] 1 2 3
    by simp
qed

text \<open>
  The claim C7 as stated fails: the initial pull was answered while the store held the bytes
  1, 2, 3, but its response is delayed; meanwhile the store receives the bytes 9, 9, the
  poll sees the new tag and pulls them. When the delayed response arrives, the client
  draws the old bytes over the new ones and takes the old tag back.
\<close>

theorem stale_response_applied_counterexample:
  "sync_etag (client_run [Start, PollTick Left, CheckSettled Left (Some head_99),
        PullSettled Left (Some get_99) True] client_init) Left =
     Some ''31609426297325bdb28c86ab3ceeed4a3c438966733fd61b8aea00ee8b23b7bc'' \<and>
   bytes (eyes room_put99 Left) = Some [9, 9] \<and>
   ETag (headers get_123) = Some ''039058c6f2c0cb492c533b0a4d14ef77cc0f78abccced5287d84a1a2011cfb81'' \<and>
   canvas (client_run [Start, PollTick Left, CheckSettled Left (Some head_99),
        PullSettled Left (Some get_99) True, PullSettled Left (Some get_123) True] client_init) =
     [ClearRect Left, ClearRect Right, ClearRect Left, DrawImage Left [9, 9],
      ClearRect Left, DrawImage Left [1, 2, 3]] \<and>
   sync_etag (client_run [Start, PollTick Left, CheckSettled Left (Some head_99),
        PullSettled Left (Some get_99) True, PullSettled Left (Some get_123) True] client_init) Left =
     Some ''039058c6f2c0cb492c533b0a4d14ef77cc0f78abccced5287d84a1a2011cfb81''"
  by (simp add: get_123_eq get_99_eq head_99_eq client_eval hash_123 hash_99
        room_put99_def room_put123_def room_eval)

text \<open>
  Claim C7, as the code has it. There is no detection of stale responses: whatever tag is
  cached, a pulled response with status 200 whose body decodes is drawn to the canvas,
  its tag replaces the cached one, and the key is marked clean.
\<close>

theorem pull_applies_unconditionally:
  assumes "status r = 200"
  shows "canvas (pull_settled eye (Some r) True st) =
           canvas st @ [ClearRect eye, DrawImage eye (body_bytes (body r))] \<and>
         sync_etag (pull_settled eye (Some r) True st) = (sync_etag st)(eye := ETag (headers r)) \<and>
         \<not> isDirty (pull_settled eye (Some r) True st) eye"
  using assms by (simp add: pull_settled_def drawBitmapToEye_def isDirty_def Let_def)

text \<open>The delayed response of the scenario above, applied over the newer content.\<close>

theorem pull_applies_unconditionally_witness:
  "status get_123 = 200 \<and>
   sync_etag (client_run [Start, PollTick Left, CheckSettled Left (Some head_99),
        PullSettled Left (Some get_99) True] client_init) Left = Some (hash [9, 9]) \<and>
   canvas (pull_settled Left (Some get_123) True
      (client_run [Start, PollTick Left, CheckSettled Left (Some head_99),
        PullSettled Left (Some get_99) True] client_init)) =
     [ClearRect Left, ClearRect Right, ClearRect Left, DrawImage Left [9, 9],
      ClearRect Left, DrawImage Left [1, 2, 3]] \<and>
   sync_etag (pull_settled Left (Some get_123) True
      (client_run [Start, PollTick Left, CheckSettled Left (Some head_99),
        PullSettled Left (Some get_99) True] client_init)) Left = Some (hash [1, 2, 3])"
proof -
  let ?st = "client_run [Start, PollTick Left, CheckSettled Left (Some head_99),
        PullSettled Left (Some get_99) True] client_init"
  have 1: "status get_123 = 200" and 2: "body_bytes (body get_123) = [1, 2, 3]"
    and 3: "ETag (headers get_123) = Some (hash [1, 2, 3])"
    by (simp_all add: get_123_eq)
  have 4: "canvas ?st = [ClearRect Left, ClearRect Right, ClearRect Left, DrawImage Left [9, 9]]"
    and 5: "sync_etag ?st Left = Some (hash [9, 9])"
    by (simp_all add: get_99_eq head_99_eq client_eval hash_nonempty)
  show ?thesis
    using pull_applies_unconditionally [OF 1, of Left ?st] 1 2 3 4 5 by simp
qed

text \<open>
  Claim C8 (a failed push leaves the key dirty). The timer fires for a dirty key whose
  content hashes to something else than the cached tag, so a PUT goes out. If it fails
  (the call is rejected, or the response is not ok), the client is left exactly as it was
  when the PUT was sent: the key is still dirty and the cached tags are unchanged.
  The next \<^verbatim>\<open>scheduleSave\<close> arms a timer, and when that fires, the content of that moment
  (\<open>blob'\<close>, the same bytes or new ones, as long as they do not hash to the cached tag) is
  sent.
\<close>

theorem failed_push_stays_dirty:
  assumes "isDirty st eye" and "pending st h = Some (due, eye)" and "due \<le> now"
    and "sync_etag st eye \<noteq> Some (hashBlob blob)"
    and "failed res"
    and "sync_etag st eye \<noteq> Some (hashBlob blob')"
  shows "sent (timer_fire now h blob st) = sent st @ [NetPUT eye blob] \<and>
         save_settled eye blob res (timer_fire now h blob st) = timer_fire now h blob st \<and>
         isDirty (save_settled eye blob res (timer_fire now h blob st)) eye \<and>
         sync_etag (save_settled eye blob res (timer_fire now h blob st)) = sync_etag st \<and>
         sent (timer_fire (now' + 900) (nextHandle st) blob'
                (scheduleSave now' eye (save_settled eye blob res (timer_fire now h blob st)))) =
           sent st @ [NetPUT eye blob, NetPUT eye blob']"
proof -
  let ?s1 = "timer_fire now h blob st"
  have s1: "?s1 = st\<lparr>pending := (pending st)(h := None), sent := sent st @ [NetPUT eye blob]\<rparr>"
    using assms(1-4) by (auto simp: timer_fire_def save_fired_def isDirty_def)
  have s2: "save_settled eye blob res ?s1 = ?s1"
    using assms(5) by (cases res) (simp_all add: save_settled_def failed_def)
  show ?thesis
    unfolding s2 unfolding s1
    using assms(1,6)
    by (auto simp: isDirty_def scheduleSave_def setTimeout_def clearTimeout_def
          timer_fire_def save_fired_def split: option.splits)
qed

text \<open>
  A stroke, a push answered with status 500, a further notification at time 2000, and the
  push of the picture as it is when the second timer fires.
\<close>

theorem failed_push_stays_dirty_witness:
  "isDirty (client_run [PointerStroke Left, PointerUp 0 Left] client_init) Left \<and>
   failed (Some \<lparr>status = 500, headers = no_headers, body = NoBody\<rparr>) \<and>
   sent (timer_fire 900 1 [1, 2, 3] (client_run [PointerStroke Left, PointerUp 0 Left] client_init)) =
     [NetPUT Left [1, 2, 3]] \<and>
   isDirty (save_settled Left [1, 2, 3] (Some \<lparr>status = 500, headers = no_headers, body = NoBody\<rparr>)
     (timer_fire 900 1 [1, 2, 3] (client_run [PointerStroke Left, PointerUp 0 Left] client_init))) Left \<and>
   sent (timer_fire 2900 2 [9, 9] (scheduleSave 2000 Left
     (save_settled Left [1, 2, 3] (Some \<lparr>status = 500, headers = no_headers, body = NoBody\<rparr>)
       (timer_fire 900 1 [1, 2, 3] (client_run [PointerStroke Left, PointerUp 0 Left] client_init))))) =
     [NetPUT Left [1, 2, 3], NetPUT Left [9, 9]]"
proof -
  let ?st = "client_run [PointerStroke Left, PointerUp 0 Left] client_init"
  let ?res = "Some \<lparr>status = 500, headers = no_headers, body = NoBody\<rparr>"
  have 1: "isDirty ?st Left" and 2: "pending ?st 1 = Some (900, Left)" and 3: "(900::nat) \<le> 900"
    and 4: "sync_etag ?st Left \<noteq> Some (hashBlob [1, 2, 3])" and 5: "failed ?res"
    and 6: "nextHandle ?st = 2" and 7: "sent ?st = []"
    and 9: "sync_etag ?st Left \<noteq> Some (hashBlob [9, 9])"
    by (simp_all add: client_eval failed_def)
  have 8: "2000 + 900 = (2900::nat)" by simp
  note t = failed_push_stays_dirty [OF 1 2 3 4 5 9, of 2000, unfolded 6 7 8 append_Nil]
  show ?thesis
    using t 1 5 by blast
qed

end
